theory Spec2Isabelle
  imports Main
begin

section \<open>Exceptions and error numbers\<close>

text \<open>
  A raised Python exception is a value. \<open>OSError n\<close> stands for \<open>OSError\<close> and each of
  its subclasses (\<open>FileExistsError\<close>, \<open>PermissionError\<close>, \<open>ProcessLookupError\<close>, ...)
  with \<open>errno\<close> equal to \<open>n\<close>. \<open>InvalidLiteral s\<close> is the \<open>ValueError\<close> that the builtin
  \<open>int(s)\<close> raises for a text \<open>s\<close> that is no integer literal. \<open>OtherError c\<close> is an
  exception of any further class \<open>c\<close>.
\<close>

datatype exn =
    OSError int
  | ValueError string
  | InvalidLiteral string
  | AssertionError string
  | AttributeError string
  | CalledProcessError int "string list"
  | StillAliveException int
  | OtherError string

definition EPERM :: int where "EPERM = 1"
definition ESRCH :: int where "ESRCH = 3"
definition EEXIST :: int where "EEXIST = 17"
definition EINVAL :: int where "EINVAL = 22"

text \<open>The clauses \<open>except OSError\<close> and \<open>except ValueError\<close> select by class.\<close>

fun is_OSError :: "exn \<Rightarrow> bool" where
  "is_OSError (OSError n) = True"
| "is_OSError e = False"

fun is_ValueError :: "exn \<Rightarrow> bool" where
  "is_ValueError (ValueError m) = True"
| "is_ValueError (InvalidLiteral s) = True"
| "is_ValueError e = False"

section \<open>\<open>create_dir\<close>\<close>

text \<open>
  \<^verbatim>\<open>
  def create_dir(directory):
      try:
          os.makedirs(directory)
      except OSError as e:
          if e.errno != errno.EEXIST:
              raise
  \<close>
  \<open>os.makedirs\<close> is the operating system's: it is a parameter, a function from the path and
  the state of the file system to what the call raises or returns, with the state it leaves.
\<close>

definition create_dir ::
  "(string \<Rightarrow> 'w \<Rightarrow> (exn + unit) \<times> 'w) \<Rightarrow> string \<Rightarrow> 'w \<Rightarrow> (exn + unit) \<times> 'w" where
  "create_dir os_makedirs directory w =
     (case os_makedirs directory w of
        (Inl (OSError n), w') \<Rightarrow>
          if n \<noteq> EEXIST then (Inl (OSError n), w') else (Inr (), w')
      | (Inl e, w') \<Rightarrow> (Inl e, w')
      | (Inr u, w') \<Rightarrow> (Inr (), w'))"

text \<open>
  A file system for the examples: the set of directories that exist. \<open>makedirs_set\<close> creates
  the directory, or fails with \<open>EEXIST\<close> when it is there, or with \<open>EACCES\<close> (13) under a
  read-only prefix.
\<close>

definition makedirs_set :: "string \<Rightarrow> string set \<Rightarrow> (exn + unit) \<times> string set" where
  "makedirs_set d ds =
     (if d \<in> ds then (Inl (OSError EEXIST), ds)
      else if take 4 d = ''/ro/'' then (Inl (OSError 13), ds)
      else (Inr (), insert d ds))"

section \<open>Text and integers\<close>

text \<open>
  \<open>str(n)\<close> of an integer: the decimal digits, most significant first, after a minus sign
  when \<open>n\<close> is negative.
\<close>

definition digit_char :: "nat \<Rightarrow> char" where
  "digit_char d = char_of (48 + d)"

fun str_nat :: "nat \<Rightarrow> string" where
  "str_nat n = (if n < 10 then [digit_char n] else str_nat (n div 10) @ [digit_char (n mod 10)])"

declare str_nat.simps [simp del]

definition py_str :: "int \<Rightarrow> string" where
  "py_str i = (if i < 0 then CHR ''-'' # str_nat (nat (- i)) else str_nat (nat i))"

text \<open>
  \<open>int(s)\<close> of an ASCII text, base 10: white space (tab, line feed, vertical tab, form
  feed, carriage return, space) is stripped at both ends, one sign may come first, then
  decimal digits, any number of them, where a single underscore may stand between two
  digits. \<open>None\<close> is the \<open>ValueError\<close> of a text that is no such literal (the empty text
  among them).
\<close>

definition is_space :: "char \<Rightarrow> bool" where
  "is_space c = (of_char c \<in> set [9, 10, 11, 12, 13, 32 :: nat])"

definition is_digit :: "char \<Rightarrow> bool" where
  "is_digit c = (48 \<le> (of_char c :: nat) \<and> (of_char c :: nat) \<le> 57)"

definition digit_val :: "char \<Rightarrow> nat" where
  "digit_val c = of_char c - 48"

definition strip :: "string \<Rightarrow> string" where
  "strip s = rev (dropWhile is_space (rev (dropWhile is_space s)))"

fun digits :: "nat \<Rightarrow> string \<Rightarrow> nat option" where
  "digits acc [] = Some acc"
| "digits acc [c] = (if is_digit c then Some (10 * acc + digit_val c) else None)"
| "digits acc (c # d # ds) =
     (if is_digit c then digits (10 * acc + digit_val c) (d # ds)
      else if c = CHR ''_'' \<and> is_digit d then digits (10 * acc + digit_val d) ds
      else None)"

definition literal :: "string \<Rightarrow> nat option" where
  "literal s =
     (case s of [] \<Rightarrow> None | c # cs \<Rightarrow> if is_digit c then digits (digit_val c) cs else None)"

definition py_int :: "string \<Rightarrow> int option" where
  "py_int s =
     (case strip s of
        [] \<Rightarrow> None
      | c # cs \<Rightarrow>
          if c = CHR ''-'' then map_option (\<lambda>n. - int n) (literal cs)
          else if c = CHR ''+'' then map_option int (literal cs)
          else map_option int (literal (c # cs)))"

text \<open>A Python value that is an integer or a text; \<open>!=\<close> between the two kinds is true.\<close>

datatype pyval = PyInt int | PyStr string

section \<open>\<open>create_pidfile\<close>\<close>

text \<open>
  \<^verbatim>\<open>
  def create_pidfile():
      PIDFILE = "{}/pid".format(xdg.init('runtime', stack=inspect.stack()))
      if os.path.isfile(PIDFILE):
          old_pid = int(open(PIDFILE, 'r').read())
          try:
              os.kill(old_pid, 0)
          except OSError:
              pass
          except ValueError:
              if old_pid != '':
                  raise
          else:
              raise StillAliveException(old_pid)

      pid = os.getpid()
      open(PIDFILE, 'w').write(str(pid))
  \<close>
  The file system is a map from the path of each regular file to its text; reading a file
  that is there and writing a file succeed. The operating system's part is a parameter:
  \<open>os_kill pid sig\<close> is \<open>None\<close> when \<open>os.kill(pid, sig)\<close> returns and \<open>Some e\<close> when it raises
  \<open>e\<close> (signal 0 changes nothing), and \<open>os_getpid\<close> is the caller's process id.

  The module \<open>gutils.g_xdg\<close> is not among the sources: \<open>xdg_init\<close> is a parameter too, the
  outcome of the call \<open>xdg.init('runtime', ...)\<close>, which is the path of the script's runtime
  directory or the exception raised.
\<close>

definition create_pidfile ::
  "(exn + string) \<Rightarrow> (int \<Rightarrow> int \<Rightarrow> exn option) \<Rightarrow> int \<Rightarrow> (string \<rightharpoonup> string)
     \<Rightarrow> (exn + unit) \<times> (string \<rightharpoonup> string)" where
  "create_pidfile xdg_init os_kill os_getpid fs =
     (case xdg_init of
        Inl e \<Rightarrow> (Inl e, fs)
      | Inr dir \<Rightarrow>
          let PIDFILE = dir @ ''/pid'';
              checked =
                (case fs PIDFILE of
                   None \<Rightarrow> Inr ()
                 | Some content \<Rightarrow>
                     (case py_int content of
                        None \<Rightarrow> Inl (InvalidLiteral content)
                      | Some old_pid \<Rightarrow>
                          (case os_kill old_pid 0 of
                             Some e \<Rightarrow>
                               (if is_OSError e then Inr ()
                                else if is_ValueError e then
                                  (if PyInt old_pid \<noteq> PyStr [] then Inl e else Inr ())
                                else Inl e)
                           | None \<Rightarrow> Inl (StillAliveException old_pid))))
          in (case checked of
                Inl e \<Rightarrow> (Inl e, fs)
              | Inr u \<Rightarrow> (Inr (), fs(PIDFILE \<mapsto> py_str os_getpid))))"

text \<open>
  An operating system for the examples: process 4242 is alive and the caller may signal it
  (\<open>os.kill\<close> returns); process 1 is alive and the caller may not signal it
  (\<open>PermissionError\<close>, errno \<open>EPERM\<close>); a process id outside the range of the C type raises
  \<open>OverflowError\<close>; there is no other process (\<open>ProcessLookupError\<close>, errno \<open>ESRCH\<close>).
\<close>

definition os_kill_example :: "int \<Rightarrow> int \<Rightarrow> exn option" where
  "os_kill_example pid sig =
     (if pid = 4242 then None
      else if pid = 1 then Some (OSError EPERM)
      else if pid < - (2 ^ 31) \<or> 2 ^ 31 \<le> pid then Some (OtherError ''OverflowError'')
      else Some (OSError ESRCH))"

section \<open>\<open>notify\<close>\<close>

text \<open>
  \<open>sp.check_call(cmd)\<close> runs a command and waits for it. \<open>run cmd\<close> is what the operating
  system does with the command: \<open>Inl e\<close> when no process can be started (the program is not
  found, say), \<open>Inr c\<close> when a process runs and exits with return code \<open>c\<close>. The state is
  the list of the commands for which a process was started.
\<close>

definition check_call ::
  "(string list \<Rightarrow> exn + int) \<Rightarrow> string list \<Rightarrow> string list list
     \<Rightarrow> (exn + unit) \<times> string list list" where
  "check_call run cmd started =
     (case run cmd of
        Inl e \<Rightarrow> (Inl e, started)
      | Inr returncode \<Rightarrow>
          (if returncode \<noteq> 0 then Inl (CalledProcessError returncode cmd) else Inr (),
           started @ [cmd]))"

text \<open>\<open>'{}'.format(x)\<close> of a value that is \<open>None\<close> or a text.\<close>

definition format_opt :: "string option \<Rightarrow> string" where
  "format_opt x = (case x of None \<Rightarrow> ''None'' | Some s \<Rightarrow> s)"

text \<open>
  \<^verbatim>\<open>
  def notify(*args, title=None, urgency=None):
      try:
          assert len(args) > 0, 'No notification message specified.'
          assert urgency in (None, 'low', 'normal', 'critical'), \
              'Invalid Urgency: {}'.format(urgency)
      except AssertionError as e:
          raise ValueError(str(e))

      if title is None:
          title = shared.scriptname(inspect.stack())

      cmd_list = ['notify-send']
      cmd_list.extend([title])
      if urgency is not None:
          cmd_list.extend(['-u', urgency])
      cmd_list.extend(args)
      sp.check_call(cmd_list)
  \<close>
  The \<open>assert\<close> statements are executed, as they are unless the interpreter is told to
  strip them. The module \<open>gutils.shared\<close> is not among the sources: \<open>scriptname\<close> is the
  outcome of the call \<open>shared.scriptname(inspect.stack())\<close>, a name or an exception.
\<close>

definition notify ::
  "(exn + string) \<Rightarrow> (string list \<Rightarrow> exn + int) \<Rightarrow> string list \<Rightarrow> string option
     \<Rightarrow> string option \<Rightarrow> string list list \<Rightarrow> (exn + unit) \<times> string list list" where
  "notify scriptname run args title urgency started =
     (let asserted =
            (if \<not> length args > 0
               then Inl (AssertionError ''No notification message specified.'')
             else if urgency \<notin> set [None, Some ''low'', Some ''normal'', Some ''critical'']
               then Inl (AssertionError (''Invalid Urgency: '' @ format_opt urgency))
             else Inr ())
      in (case asserted of
            Inl (AssertionError m) \<Rightarrow> (Inl (ValueError m), started)
          | Inl e \<Rightarrow> (Inl e, started)
          | Inr u \<Rightarrow>
              (case (case title of None \<Rightarrow> scriptname | Some t \<Rightarrow> Inr t) of
                 Inl e \<Rightarrow> (Inl e, started)
               | Inr title' \<Rightarrow>
                   check_call run
                     ([''notify-send''] @ [title']
                        @ (case urgency of None \<Rightarrow> [] | Some u' \<Rightarrow> [''-u'', u']) @ args)
                     started)))"

text \<open>A desktop for the examples: every command starts and exits with return code 0.\<close>

definition run_ok :: "string list \<Rightarrow> exn + int" where
  "run_ok cmd = Inr 0"

section \<open>\<open>signal\<close>\<close>

text \<open>
  \<^verbatim>\<open>
  def signal(*signums):
      def _signal(handler):
          for signum in signums:
              sig.signal(signum, handler)
          return handler
      return _signal
  \<close>
  \<open>sig.signal\<close> is the standard library's: a parameter, a function from the signal number,
  the handler and the state of the process to what the call raises, or that it returns
  (the previous handler, which the loop discards), with the state it leaves.
  \<open>signal_loop\<close> is the \<open>for\<close> statement, and \<open>signal sig_signal signums\<close> is the inner
  function \<open>_signal\<close> that the decorator returns.
\<close>

fun signal_loop ::
  "(int \<Rightarrow> 'h \<Rightarrow> 's \<Rightarrow> (exn + unit) \<times> 's) \<Rightarrow> int list \<Rightarrow> 'h \<Rightarrow> 's \<Rightarrow> (exn + unit) \<times> 's" where
  "signal_loop sig_signal [] handler s = (Inr (), s)"
| "signal_loop sig_signal (signum # signums) handler s =
     (case sig_signal signum handler s of
        (Inl e, s') \<Rightarrow> (Inl e, s')
      | (Inr u, s') \<Rightarrow> signal_loop sig_signal signums handler s')"

definition signal ::
  "(int \<Rightarrow> 'h \<Rightarrow> 's \<Rightarrow> (exn + unit) \<times> 's) \<Rightarrow> int list \<Rightarrow> 'h \<Rightarrow> 's \<Rightarrow> (exn + 'h) \<times> 's" where
  "signal sig_signal signums handler s =
     (case signal_loop sig_signal signums handler s of
        (Inl e, s') \<Rightarrow> (Inl e, s')
      | (Inr u, s') \<Rightarrow> (Inr handler, s'))"

text \<open>
  A process for the examples, after \<open>signal.signal\<close> of CPython on Linux: the state is the
  table of installed handlers; a number outside \<open>1 .. NSIG - 1\<close> raises \<open>ValueError\<close>; the
  signals that cannot be caught, \<open>SIGKILL\<close> and \<open>SIGSTOP\<close>, and the two that the C library
  keeps for itself, 32 and 33, raise \<open>OSError\<close> with errno \<open>EINVAL\<close>; for another number the
  handler is installed.
\<close>

definition SIGINT :: int where "SIGINT = 2"
definition SIGKILL :: int where "SIGKILL = 9"
definition SIGTERM :: int where "SIGTERM = 15"
definition SIGSTOP :: int where "SIGSTOP = 19"
definition NSIG :: int where "NSIG = 65"

definition sig_signal_example ::
  "int \<Rightarrow> 'h \<Rightarrow> (int \<rightharpoonup> 'h) \<Rightarrow> (exn + unit) \<times> (int \<rightharpoonup> 'h)" where
  "sig_signal_example signalnum handler handlers =
     (if signalnum < 1 \<or> NSIG \<le> signalnum
        then (Inl (ValueError ''signal number out of range''), handlers)
      else if signalnum = SIGKILL \<or> signalnum = SIGSTOP \<or> signalnum = 32 \<or> signalnum = 33
        then (Inl (OSError EINVAL), handlers)
      else (Inr (), handlers(signalnum \<mapsto> handler)))"

section \<open>\<open>Result\<close>\<close>

text \<open>
  \<^verbatim>\<open>
  class Ok(Generic[_T]):
      def __init__(self, value): self._value = value
      def ok(self): return self._value

  class Err(Generic[_E]):
      def __init__(self, e): self._e = e
      def err(self): return self._e

  Result = Union[Ok[_T], Err[_E]]
  \<close>
  An instance is the record of its attributes. A method takes the instance and returns
  its result together with the instance as the call leaves it.
\<close>

record 't Ok =
  Ok_value :: 't

record 'e Err =
  Err_e :: 'e

definition Ok_init :: "'t \<Rightarrow> 't Ok" where
  "Ok_init v = \<lparr>Ok_value = v\<rparr>"

definition ok :: "'t Ok \<Rightarrow> 't \<times> 't Ok" where
  "ok self = (Ok_value self, self)"

definition Err_init :: "'e \<Rightarrow> 'e Err" where
  "Err_init e = \<lparr>Err_e = e\<rparr>"

definition err :: "'e Err \<Rightarrow> 'e \<times> 'e Err" where
  "err self = (Err_e self, self)"

text \<open>
  Instances at run time. The classes declare no \<open>__slots__\<close>, no \<open>__setattr__\<close> and no
  property, and \<open>Result\<close> is an alias for type checking that nothing enforces when the
  program runs. An instance is an ordinary object: its class together with the dictionary
  of its attributes. \<open>getattr\<close> reads an attribute of the instance (\<open>AttributeError\<close> when
  it has none of that name) and \<open>setattr\<close> is the assignment \<open>self.name = v\<close>, which stores
  into the dictionary. Python's values being typed dynamically, one type \<open>'v\<close> holds the
  payloads of both classes.
\<close>

datatype class_name = Ok_class | Err_class

record 'v pyobject =
  class_of :: class_name
  attrs :: "string \<rightharpoonup> 'v"

definition new_object :: "class_name \<Rightarrow> 'v pyobject" where
  "new_object c = \<lparr>class_of = c, attrs = Map.empty\<rparr>"

definition isinstance :: "'v pyobject \<Rightarrow> class_name \<Rightarrow> bool" where
  "isinstance self c = (class_of self = c)"

definition getattr :: "'v pyobject \<Rightarrow> string \<Rightarrow> exn + 'v" where
  "getattr self name =
     (case attrs self name of None \<Rightarrow> Inl (AttributeError name) | Some v \<Rightarrow> Inr v)"

definition setattr :: "'v pyobject \<Rightarrow> string \<Rightarrow> 'v \<Rightarrow> 'v pyobject" where
  "setattr self name v = self\<lparr>attrs := (attrs self)(name \<mapsto> v)\<rparr>"

text \<open>
  The functions that the two classes define, on instances at run time:
  \<open>object_Ok_init\<close> is \<open>Ok.__init__\<close>, \<open>object_Ok_ok\<close> is \<open>Ok.ok\<close>, and \<open>object_Ok value\<close>
  is the expression \<open>Ok(value)\<close>, which runs \<open>__init__\<close> on a new instance of the class;
  likewise for \<open>Err\<close>. An accessor returns its result together with the instance as the
  call leaves it.
\<close>

definition object_Ok_init :: "'v pyobject \<Rightarrow> 'v \<Rightarrow> 'v pyobject" where
  "object_Ok_init self v = setattr self ''_value'' v"

definition object_Ok_ok :: "'v pyobject \<Rightarrow> (exn + 'v) \<times> 'v pyobject" where
  "object_Ok_ok self = (getattr self ''_value'', self)"

definition object_Ok :: "'v \<Rightarrow> 'v pyobject" where
  "object_Ok v = object_Ok_init (new_object Ok_class) v"

definition object_Err_init :: "'v pyobject \<Rightarrow> 'v \<Rightarrow> 'v pyobject" where
  "object_Err_init self e = setattr self ''_e'' e"

definition object_Err_err :: "'v pyobject \<Rightarrow> (exn + 'v) \<times> 'v pyobject" where
  "object_Err_err self = (getattr self ''_e'', self)"

definition object_Err :: "'v \<Rightarrow> 'v pyobject" where
  "object_Err e = object_Err_init (new_object Err_class) e"

section \<open>Lemmas on text and integers\<close>

text \<open>\<open>int\<close> reads back what \<open>str\<close> writes, and \<open>str\<close> of a natural number is digits only.\<close>

lemma is_digit_digit_char: "d < 10 \<Longrightarrow> is_digit (digit_char d)"
  by (simp add: is_digit_def digit_char_def)

lemma digit_val_digit_char: "d < 10 \<Longrightarrow> digit_val (digit_char d) = d"
  by (simp add: digit_val_def digit_char_def)

lemma not_space_digit: "is_digit c \<Longrightarrow> \<not> is_space c"
  by (auto simp: is_space_def is_digit_def)

lemma digits_snoc:
  "list_all is_digit cs \<Longrightarrow> is_digit c \<Longrightarrow>
   digits acc (cs @ [c]) = map_option (\<lambda>v. 10 * v + digit_val c) (digits acc cs)"
  by (induction acc cs rule: digits.induct) auto

lemma digits_all_digit: "list_all is_digit cs \<Longrightarrow> digits acc cs \<noteq> None"
  by (induction acc cs rule: digits.induct) auto

lemma str_nat_digits: "list_all is_digit (str_nat n)"
  by (induction n rule: str_nat.induct) (subst str_nat.simps, simp add: is_digit_digit_char)

lemma str_nat_nonempty: "str_nat n \<noteq> []"
  by (subst str_nat.simps) simp

lemma literal_snoc:
  "cs \<noteq> [] \<Longrightarrow> list_all is_digit cs \<Longrightarrow> is_digit c \<Longrightarrow>
   literal (cs @ [c]) = map_option (\<lambda>v. 10 * v + digit_val c) (literal cs)"
  by (cases cs) (auto simp: literal_def digits_snoc)

lemma literal_str_nat: "literal (str_nat n) = Some n"
proof (induction n rule: str_nat.induct)
  case (1 n)
  show ?case
  proof (cases "n < 10")
    case True
    then show ?thesis
      by (subst str_nat.simps) (simp add: literal_def is_digit_digit_char digit_val_digit_char)
  next
    case False
    then have ih: "literal (str_nat (n div 10)) = Some (n div 10)" using 1 by simp
    have "literal (str_nat (n div 10) @ [digit_char (n mod 10)]) = Some (10 * (n div 10) + n mod 10)"
      by (simp add: literal_snoc str_nat_nonempty str_nat_digits is_digit_digit_char
          digit_val_digit_char ih)
    with False show ?thesis by (subst str_nat.simps) simp
  qed
qed

lemma strip_digits: "cs \<noteq> [] \<Longrightarrow> \<not> is_space (hd cs) \<Longrightarrow> \<not> is_space (last cs) \<Longrightarrow> strip cs = cs"
proof -
  have dw: "dropWhile P xs = xs" if "xs \<noteq> []" "\<not> P (hd xs)" for P and xs :: string
    using that by (cases xs) auto
  assume a: "cs \<noteq> []" "\<not> is_space (hd cs)" "\<not> is_space (last cs)"
  then have "dropWhile is_space cs = cs" by (simp add: dw)
  moreover have "dropWhile is_space (rev cs) = rev cs" using a by (simp add: dw hd_rev)
  ultimately show ?thesis by (simp add: strip_def)
qed

lemma str_nat_hd: "is_digit (hd (str_nat n))"
  using str_nat_digits [of n] str_nat_nonempty [of n] by (cases "str_nat n") auto

lemma str_nat_last: "is_digit (last (str_nat n))"
  using str_nat_digits [of n] str_nat_nonempty [of n]
  by (cases "str_nat n" rule: rev_cases) auto

lemma not_digit_sign: "\<not> is_digit CHR ''-''" "\<not> is_digit CHR ''+''" "\<not> is_space CHR ''-''"
  by (simp_all add: is_digit_def is_space_def)

lemma py_int_py_str: "py_int (py_str i) = Some i"
proof (cases "i < 0")
  case True
  have "strip (CHR ''-'' # str_nat (nat (- i))) = CHR ''-'' # str_nat (nat (- i))"
    using str_nat_last [of "nat (- i)"] str_nat_nonempty [of "nat (- i)"]
    by (intro strip_digits) (auto simp: not_digit_sign not_space_digit)
  with True show ?thesis
    by (simp add: py_int_def py_str_def literal_str_nat)
next
  case False
  have s: "strip (str_nat (nat i)) = str_nat (nat i)"
    using str_nat_last [of "nat i"] str_nat_hd [of "nat i"] str_nat_nonempty [of "nat i"]
    by (intro strip_digits) (auto simp: not_space_digit)
  obtain c cs where e: "str_nat (nat i) = c # cs"
    using str_nat_nonempty [of "nat i"] by (cases "str_nat (nat i)") auto
  have d: "is_digit c" using str_nat_hd [of "nat i"] e by simp
  then have "c \<noteq> CHR ''-''" "c \<noteq> CHR ''+''" using not_digit_sign by auto
  with False s e literal_str_nat [of "nat i"] show ?thesis
    by (simp add: py_int_def py_str_def)
qed

lemmas py_int_eval = py_int_def strip_def is_space_def literal_def is_digit_def digit_val_def

lemmas py_str_eval = py_str_def str_nat.simps digit_char_def char_of_def bit_0

lemma py_str_5000: "py_str 5000 = ''5000''"
  by (simp add: py_str_eval)

section \<open>Properties of \<open>create_dir\<close>\<close>

text \<open>
  C6. When \<open>os.makedirs\<close> fails because the directory already exists (\<open>OSError\<close> with errno
  \<open>EEXIST\<close>), \<open>create_dir\<close> returns normally; every other exception of \<open>os.makedirs\<close> leaves
  \<open>create_dir\<close> as the same exception value, not wrapped; and when \<open>os.makedirs\<close> returns,
  so does \<open>create_dir\<close>. The file system is left as \<open>os.makedirs\<close> left it.
\<close>

theorem create_dir_idempotent:
  "(os_makedirs d w = (Inl (OSError EEXIST), w') \<longrightarrow> create_dir os_makedirs d w = (Inr (), w')) \<and>
   (os_makedirs d w = (Inl e, w') \<and> e \<noteq> OSError EEXIST \<longrightarrow>
      create_dir os_makedirs d w = (Inl e, w')) \<and>
   (os_makedirs d w = (Inr (), w') \<longrightarrow> create_dir os_makedirs d w = (Inr (), w'))"
  by (cases e) (auto simp: create_dir_def)

theorem create_dir_idempotent_witness:
  "makedirs_set ''/run/app'' {''/run/app''} = (Inl (OSError EEXIST), {''/run/app''}) \<and>
   create_dir makedirs_set ''/run/app'' {''/run/app''} = (Inr (), {''/run/app''}) \<and>
   makedirs_set ''/ro/app'' {} = (Inl (OSError 13), {}) \<and> OSError 13 \<noteq> OSError EEXIST \<and>
   create_dir makedirs_set ''/ro/app'' {} = (Inl (OSError 13), {}) \<and>
   makedirs_set ''/run/app'' {} = (Inr (), {''/run/app''}) \<and>
   create_dir makedirs_set ''/run/app'' {} = (Inr (), {''/run/app''})"
proof -
  have a: "makedirs_set ''/run/app'' {''/run/app''} = (Inl (OSError EEXIST), {''/run/app''})"
    by (simp add: makedirs_set_def)
  have b: "makedirs_set ''/ro/app'' {} = (Inl (OSError 13), {})"
    by (simp add: makedirs_set_def)
  have b': "OSError 13 \<noteq> OSError EEXIST"
    by (simp add: EEXIST_def)
  have c: "makedirs_set ''/run/app'' {} = (Inr (), {''/run/app''})"
    by (simp add: makedirs_set_def)
  from a b b' c
    create_dir_idempotent [of makedirs_set "''/run/app''" "{''/run/app''}" "{''/run/app''}" "OSError 13"]
    create_dir_idempotent [of makedirs_set "''/ro/app''" "{}" "{}" "OSError 13"]
    create_dir_idempotent [of makedirs_set "''/run/app''" "{}" "{''/run/app''}" "OSError 13"]
  show ?thesis by simp
qed
section \<open>Properties of \<open>create_pidfile\<close>\<close>

text \<open>
  Whenever the probe \<open>os.kill(old_pid, 0)\<close> raises an \<open>OSError\<close>, of whatever errno, the
  clause \<open>except OSError: pass\<close> swallows it and the pid file is overwritten.
\<close>

lemma create_pidfile_proceeds:
  assumes "xdg_init = Inr dir" and "fs (dir @ ''/pid'') = Some content"
    and "py_int content = Some old_pid" and "os_kill old_pid 0 = Some (OSError n)"
  shows "create_pidfile xdg_init os_kill os_getpid fs =
           (Inr (), fs(dir @ ''/pid'' \<mapsto> py_str os_getpid))"
  using assms by (simp add: create_pidfile_def)

text \<open>
  C1, as the specification states it, fails: pid file \<open>/run/app/pid\<close> holds \<open>1\<close>, the probe
  of process 1 raises \<open>PermissionError\<close> (errno \<open>EPERM\<close>), and \<open>create_pidfile\<close> does not
  raise \<open>StillAliveException(1)\<close>: it returns and the file holds the caller's pid 5000.
\<close>

theorem create_pidfile_permission_counterexample:
  "[''/run/app/pid'' \<mapsto> ''1''] ''/run/app/pid'' = Some ''1'' \<and> py_int ''1'' = Some 1 \<and>
   os_kill_example 1 0 = Some (OSError EPERM) \<and>
   create_pidfile (Inr ''/run/app'') os_kill_example 5000 [''/run/app/pid'' \<mapsto> ''1''] \<noteq>
     (Inl (StillAliveException 1), [''/run/app/pid'' \<mapsto> ''1'']) \<and>
   create_pidfile (Inr ''/run/app'') os_kill_example 5000 [''/run/app/pid'' \<mapsto> ''1''] =
     (Inr (), [''/run/app/pid'' \<mapsto> ''5000''])"
proof -
  have p: "py_int ''1'' = Some 1" by (simp add: py_int_eval)
  show ?thesis
    by (simp add: create_pidfile_def p py_str_5000 os_kill_example_def)
qed

text \<open>
  C1, amended. If the pid file holds a pid and the probe of that pid fails with a
  permission error (\<open>OSError\<close> with errno \<open>EPERM\<close>), \<open>create_pidfile\<close> treats the process as
  absent: it raises nothing, and it overwrites the pid file with the caller's own pid.
\<close>

theorem create_pidfile_permission_denied:
  assumes "xdg_init = Inr dir" and "fs (dir @ ''/pid'') = Some content"
    and "py_int content = Some old_pid" and "os_kill old_pid 0 = Some (OSError EPERM)"
  shows "create_pidfile xdg_init os_kill os_getpid fs =
           (Inr (), fs(dir @ ''/pid'' \<mapsto> py_str os_getpid))"
  using assms by (rule create_pidfile_proceeds)

theorem create_pidfile_permission_denied_witness:
  "[''/etc/app/pid'' \<mapsto> '' 1\<newline>''] (''/etc/app'' @ ''/pid'') = Some '' 1\<newline>'' \<and>
   py_int '' 1\<newline>'' = Some 1 \<and> os_kill_example 1 0 = Some (OSError EPERM) \<and>
   create_pidfile (Inr ''/etc/app'') os_kill_example 77 [''/etc/app/pid'' \<mapsto> '' 1\<newline>''] =
     (Inr (), [''/etc/app/pid'' \<mapsto> '' 1\<newline>''](''/etc/app'' @ ''/pid'' \<mapsto> py_str 77))"
proof -
  have f: "[''/etc/app/pid'' \<mapsto> '' 1\<newline>''] (''/etc/app'' @ ''/pid'') = Some '' 1\<newline>''"
    by simp
  have p: "py_int '' 1\<newline>'' = Some 1" by (simp add: py_int_eval)
  have k: "os_kill_example 1 0 = Some (OSError EPERM)" by (simp add: os_kill_example_def)
  from f p k
    create_pidfile_permission_denied [where xdg_init = "Inr ''/etc/app''" and dir = "''/etc/app''"
      and fs = "[''/etc/app/pid'' \<mapsto> '' 1\<newline>'']" and content = "'' 1\<newline>''" and old_pid = 1
      and os_kill = os_kill_example and os_getpid = 77]
  show ?thesis by simp
qed

text \<open>
  C2, as the specification states it, fails: pid file \<open>/run/app/pid\<close> holds \<open>abc\<close>, and
  \<open>create_pidfile\<close> raises the \<open>ValueError\<close> of \<open>int('abc')\<close>, which is raised before the
  \<open>try\<close> statement is entered; the file is not overwritten.
\<close>

theorem create_pidfile_malformed_counterexample:
  "py_int ''abc'' = None \<and>
   create_pidfile (Inr ''/run/app'') os_kill_example 5000 [''/run/app/pid'' \<mapsto> ''abc''] =
     (Inl (InvalidLiteral ''abc''), [''/run/app/pid'' \<mapsto> ''abc'']) \<and>
   is_ValueError (InvalidLiteral ''abc'')"
proof -
  have p: "py_int ''abc'' = None" by (simp add: py_int_eval)
  show ?thesis by (simp add: create_pidfile_def p)
qed

text \<open>
  C2, amended. For every pid file whose content is not empty and fails to parse as an
  integer, \<open>create_pidfile\<close> raises the \<open>ValueError\<close> of the conversion and leaves the file
  system, the pid file with it, as it was.
\<close>

theorem create_pidfile_malformed:
  assumes "xdg_init = Inr dir" and "fs (dir @ ''/pid'') = Some content"
    and "content \<noteq> []" and "py_int content = None"
  shows "create_pidfile xdg_init os_kill os_getpid fs = (Inl (InvalidLiteral content), fs) \<and>
         is_ValueError (InvalidLiteral content)"
  using assms by (simp add: create_pidfile_def)

theorem create_pidfile_malformed_witness:
  "[''/run/app/pid'' \<mapsto> ''12 34''] (''/run/app'' @ ''/pid'') = Some ''12 34'' \<and>
   ''12 34'' \<noteq> [] \<and> py_int ''12 34'' = None \<and>
   create_pidfile (Inr ''/run/app'') os_kill_example 5000 [''/run/app/pid'' \<mapsto> ''12 34''] =
     (Inl (InvalidLiteral ''12 34''), [''/run/app/pid'' \<mapsto> ''12 34''])"
proof -
  have f: "[''/run/app/pid'' \<mapsto> ''12 34''] (''/run/app'' @ ''/pid'') = Some ''12 34''" by simp
  have n: "''12 34'' \<noteq> []" by simp
  have p: "py_int ''12 34'' = None" by (simp add: py_int_eval)
  from f n p
    create_pidfile_malformed [where xdg_init = "Inr ''/run/app''" and dir = "''/run/app''"
      and fs = "[''/run/app/pid'' \<mapsto> ''12 34'']" and content = "''12 34''"
      and os_kill = os_kill_example and os_getpid = 5000]
  show ?thesis by simp
qed

text \<open>
  C3. If the pid file holds the pid of a process that the probe confirms (\<open>os.kill\<close>
  returns), \<open>create_pidfile\<close> raises \<open>StillAliveException\<close> with the pid read from the file,
  and the file system, the pid file with it, is left as it was.
\<close>

theorem create_pidfile_still_alive:
  assumes "xdg_init = Inr dir" and "fs (dir @ ''/pid'') = Some content"
    and "py_int content = Some old_pid" and "os_kill old_pid 0 = None"
  shows "create_pidfile xdg_init os_kill os_getpid fs = (Inl (StillAliveException old_pid), fs)"
  using assms by (simp add: create_pidfile_def)

theorem create_pidfile_still_alive_witness:
  "[''/run/app/pid'' \<mapsto> ''4242''] (''/run/app'' @ ''/pid'') = Some ''4242'' \<and>
   py_int ''4242'' = Some 4242 \<and> os_kill_example 4242 0 = None \<and>
   create_pidfile (Inr ''/run/app'') os_kill_example 5000 [''/run/app/pid'' \<mapsto> ''4242''] =
     (Inl (StillAliveException 4242), [''/run/app/pid'' \<mapsto> ''4242''])"
proof -
  have f: "[''/run/app/pid'' \<mapsto> ''4242''] (''/run/app'' @ ''/pid'') = Some ''4242''" by simp
  have p: "py_int ''4242'' = Some 4242" by (simp add: py_int_eval)
  have k: "os_kill_example 4242 0 = None" by (simp add: os_kill_example_def)
  from f p k
    create_pidfile_still_alive [where xdg_init = "Inr ''/run/app''" and dir = "''/run/app''"
      and fs = "[''/run/app/pid'' \<mapsto> ''4242'']" and content = "''4242''" and old_pid = 4242
      and os_kill = os_kill_example and os_getpid = 5000]
  show ?thesis by simp
qed

text \<open>
  C4. If no pid file exists at the computed path, \<open>create_pidfile\<close> returns normally and
  afterwards the file exists and its content is exactly \<open>str\<close> of the caller's pid: decimal
  text that \<open>int\<close> reads back as that pid and, the pid not being negative, digits only.
  No other file is touched.
\<close>

theorem create_pidfile_fresh:
  assumes "xdg_init = Inr dir" and "fs (dir @ ''/pid'') = None"
  shows "create_pidfile xdg_init os_kill os_getpid fs =
           (Inr (), fs(dir @ ''/pid'' \<mapsto> py_str os_getpid)) \<and>
         py_int (py_str os_getpid) = Some os_getpid \<and>
         (0 \<le> os_getpid \<longrightarrow> list_all is_digit (py_str os_getpid))"
proof -
  have "create_pidfile xdg_init os_kill os_getpid fs =
          (Inr (), fs(dir @ ''/pid'' \<mapsto> py_str os_getpid))"
    using assms by (simp add: create_pidfile_def)
  moreover have "0 \<le> os_getpid \<longrightarrow> list_all is_digit (py_str os_getpid)"
    by (simp add: py_str_def str_nat_digits)
  ultimately show ?thesis by (simp add: py_int_py_str)
qed

theorem create_pidfile_fresh_witness:
  "Map.empty (''/run/app'' @ ''/pid'') = None \<and> (0::int) \<le> 5000 \<and>
   create_pidfile (Inr ''/run/app'') os_kill_example 5000 Map.empty =
     (Inr (), [''/run/app/pid'' \<mapsto> ''5000'']) \<and>
   py_int ''5000'' = Some 5000 \<and> list_all is_digit ''5000''"
  using create_pidfile_fresh [where xdg_init = "Inr ''/run/app''" and dir = "''/run/app''"
      and fs = Map.empty and os_kill = os_kill_example and os_getpid = 5000]
  by (simp add: py_str_5000)

text \<open>
  C5. If the pid file parses to a pid and the probe reports that no such process exists
  (\<open>ProcessLookupError\<close>, errno \<open>ESRCH\<close>), \<open>create_pidfile\<close> returns normally and the pid file
  holds \<open>str\<close> of the caller's pid and nothing of its previous content.
\<close>

theorem create_pidfile_stale:
  assumes "xdg_init = Inr dir" and "fs (dir @ ''/pid'') = Some content"
    and "py_int content = Some old_pid" and "os_kill old_pid 0 = Some (OSError ESRCH)"
  shows "create_pidfile xdg_init os_kill os_getpid fs =
           (Inr (), fs(dir @ ''/pid'' \<mapsto> py_str os_getpid)) \<and>
         (fs(dir @ ''/pid'' \<mapsto> py_str os_getpid)) (dir @ ''/pid'') = Some (py_str os_getpid)"
proof -
  have "create_pidfile xdg_init os_kill os_getpid fs =
          (Inr (), fs(dir @ ''/pid'' \<mapsto> py_str os_getpid))"
    using assms by (rule create_pidfile_proceeds)
  then show ?thesis by simp
qed

theorem create_pidfile_stale_witness:
  "[''/run/app/pid'' \<mapsto> ''31337000''] (''/run/app'' @ ''/pid'') = Some ''31337000'' \<and>
   py_int ''31337000'' = Some 31337000 \<and> os_kill_example 31337000 0 = Some (OSError ESRCH) \<and>
   create_pidfile (Inr ''/run/app'') os_kill_example 5000 [''/run/app/pid'' \<mapsto> ''31337000''] =
     (Inr (), [''/run/app/pid'' \<mapsto> ''5000''])"
proof -
  have f: "[''/run/app/pid'' \<mapsto> ''31337000''] (''/run/app'' @ ''/pid'') = Some ''31337000''"
    by simp
  have p: "py_int ''31337000'' = Some 31337000" by (simp add: py_int_eval)
  have k: "os_kill_example 31337000 0 = Some (OSError ESRCH)"
    by (simp add: os_kill_example_def)
  from f p k
    create_pidfile_stale [where xdg_init = "Inr ''/run/app''" and dir = "''/run/app''"
      and fs = "[''/run/app/pid'' \<mapsto> ''31337000'']" and content = "''31337000''"
      and old_pid = 31337000 and os_kill = os_kill_example and os_getpid = 5000]
  show ?thesis by (simp add: py_str_5000)
qed

section \<open>Properties of \<open>Result\<close>\<close>

text \<open>
  C7. For every value \<open>x\<close>, the accessor \<open>ok\<close> applied to \<open>Ok(x)\<close> returns \<open>x\<close>, and for every
  error \<open>e\<close>, the accessor \<open>err\<close> applied to \<open>Err(e)\<close> returns \<open>e\<close>.
\<close>

theorem Result_round_trip:
  "fst (ok (Ok_init x)) = x \<and> fst (err (Err_init e)) = e"
  by (simp add: ok_def Ok_init_def err_def Err_init_def)

text \<open>
  On what the constructors build, the run-time accessors return what the accessors of the
  records return.
\<close>

lemma object_accessors_agree:
  "fst (object_Ok_ok (object_Ok x)) = Inr (fst (ok (Ok_init x))) \<and>
   fst (object_Err_err (object_Err e)) = Inr (fst (err (Err_init e)))"
  by (simp add: object_Ok_ok_def object_Ok_def object_Ok_init_def object_Err_err_def
      object_Err_def object_Err_init_def getattr_def setattr_def new_object_def
      ok_def Ok_init_def err_def Err_init_def)

text \<open>
  C8, as the specification states it, fails: a constructed value is not immutable. After
  \<open>r = Ok(1)\<close> the assignment \<open>r._value = 2\<close> changes the payload that \<open>ok\<close> returns, and the
  assignment \<open>r._e = 'boom'\<close> leaves an instance of \<open>Ok\<close> with both payloads populated.
\<close>

theorem Result_mutable_counterexample:
  "fst (object_Ok_ok (object_Ok (PyInt 1))) = Inr (PyInt 1) \<and>
   fst (object_Ok_ok (setattr (object_Ok (PyInt 1)) ''_value'' (PyInt 2))) = Inr (PyInt 2) \<and>
   setattr (object_Ok (PyInt 1)) ''_value'' (PyInt 2) \<noteq> object_Ok (PyInt 1) \<and>
   isinstance (setattr (object_Ok (PyInt 1)) ''_e'' (PyStr ''boom'')) Ok_class \<and>
   attrs (setattr (object_Ok (PyInt 1)) ''_e'' (PyStr ''boom'')) ''_value'' = Some (PyInt 1) \<and>
   attrs (setattr (object_Ok (PyInt 1)) ''_e'' (PyStr ''boom'')) ''_e'' = Some (PyStr ''boom'')"
proof -
  have "attrs (setattr (object_Ok (PyInt 1)) ''_value'' (PyInt 2)) ''_value''
          \<noteq> attrs (object_Ok (PyInt 1)) ''_value''"
    by (simp add: object_Ok_def object_Ok_init_def setattr_def new_object_def)
  then have "setattr (object_Ok (PyInt 1)) ''_value'' (PyInt 2) \<noteq> object_Ok (PyInt 1)"
    by auto
  then show ?thesis
    by (simp add: object_Ok_ok_def object_Ok_def object_Ok_init_def getattr_def setattr_def
        new_object_def isinstance_def)
qed

text \<open>
  C8, amended. Every value that \<open>Ok(x)\<close> or \<open>Err(e)\<close> constructs is, as constructed, an
  instance of exactly one of the two classes, with exactly one payload attribute
  populated (\<open>_value\<close> for \<open>Ok\<close>, \<open>_e\<close> for \<open>Err\<close>) and holding the constructor's argument; and
  the accessors \<open>ok\<close> and \<open>err\<close> return that payload and leave every instance, whatever its
  state, as it was. The classes do not make an instance immutable.
\<close>

theorem Result_constructed_one_variant:
  "isinstance (object_Ok x) Ok_class \<and> \<not> isinstance (object_Ok x) Err_class \<and>
   dom (attrs (object_Ok x)) = {''_value''} \<and>
   attrs (object_Ok x) ''_value'' = Some x \<and>
   isinstance (object_Err e) Err_class \<and> \<not> isinstance (object_Err e) Ok_class \<and>
   dom (attrs (object_Err e)) = {''_e''} \<and>
   attrs (object_Err e) ''_e'' = Some e \<and>
   object_Ok_ok (object_Ok x) = (Inr x, object_Ok x) \<and>
   object_Err_err (object_Err e) = (Inr e, object_Err e) \<and>
   snd (object_Ok_ok r) = r \<and> snd (object_Err_err r) = r"
  by (simp add: object_Ok_ok_def object_Ok_def object_Ok_init_def object_Err_err_def
      object_Err_def object_Err_init_def getattr_def setattr_def new_object_def
      isinstance_def)

section \<open>Properties of \<open>notify\<close>\<close>

text \<open>
  C9. Called with no message argument, or with an urgency that is not one of \<open>None\<close>,
  \<open>'low'\<close>, \<open>'normal'\<close>, \<open>'critical'\<close>, \<open>notify\<close> raises \<open>ValueError\<close> (the assertion's
  message in it, and no \<open>AssertionError\<close>), and no process is started: the list of started
  commands is as it was, whatever the script name and the operating system would do.
\<close>

theorem notify_validates_first:
  assumes "args = [] \<or> urgency \<notin> {None, Some ''low'', Some ''normal'', Some ''critical''}"
  shows "\<exists>m. notify scriptname run args title urgency started = (Inl (ValueError m), started)"
  using assms by (auto simp: notify_def)

theorem notify_validates_first_witness:
  "notify (Inr ''backup'') run_ok [] (Some ''Backup'') (Some ''low'') [] =
     (Inl (ValueError ''No notification message specified.''), []) \<and>
   Some ''urgent'' \<notin> {None, Some ''low'', Some ''normal'', Some ''critical''} \<and>
   notify (Inr ''backup'') run_ok [''done''] None (Some ''urgent'') [] =
     (Inl (ValueError ''Invalid Urgency: urgent''), [])"
proof -
  have u: "Some ''urgent'' \<notin> {None, Some ''low'', Some ''normal'', Some ''critical''}" by simp
  obtain m where m: "notify (Inr ''backup'') run_ok [] (Some ''Backup'') (Some ''low'') [] =
      (Inl (ValueError m), [])"
    using notify_validates_first [of "[]" "Some ''low''" "Inr ''backup''" run_ok "Some ''Backup''" "[]"]
    by auto
  obtain m' where m': "notify (Inr ''backup'') run_ok [''done''] None (Some ''urgent'') [] =
      (Inl (ValueError m'), [])"
    using u notify_validates_first [of "[''done'']" "Some ''urgent''" "Inr ''backup''" run_ok None "[]"]
    by auto
  have "m = ''No notification message specified.''"
    using m by (simp add: notify_def)
  moreover have "m' = ''Invalid Urgency: urgent''"
    using m' by (simp add: notify_def format_opt_def)
  ultimately show ?thesis using m m' u by simp
qed

text \<open>
  With valid arguments the command is run: the model does start the process that the
  invalid calls above never reach.
\<close>

lemma notify_runs_command:
  "notify (Inr ''backup'') run_ok [''done'', ''all files''] None (Some ''low'') [] =
     (Inr (), [[''notify-send'', ''backup'', ''-u'', ''low'', ''done'', ''all files'']])"
  by (simp add: notify_def check_call_def run_ok_def)

section \<open>Properties of \<open>signal\<close>\<close>

lemma signal_loop_all_registered:
  assumes "\<forall>signum \<in> set signums. \<forall>s. fst (sig_signal signum handler s) = Inr ()"
  shows "fst (signal_loop sig_signal signums handler s) = Inr ()"
  using assms
proof (induction signums arbitrary: s)
  case Nil
  then show ?case by simp
next
  case (Cons signum signums)
  obtain r s' where e: "sig_signal signum handler s = (r, s')" by (cases "sig_signal signum handler s")
  with Cons.prems have "r = Inr ()" by (metis fst_conv list.set_intros(1))
  with e Cons show ?case by simp
qed

text \<open>
  C10, as stated for every tuple of signal numbers, fails: \<open>SIGKILL\<close> cannot be caught, the
  registration \<open>sig.signal(SIGKILL, handler)\<close> raises \<open>OSError\<close>, and so does the decorator
  instead of returning the handler.
\<close>

theorem signal_sigkill_counterexample:
  "signal sig_signal_example [SIGKILL] ''on_exit'' Map.empty = (Inl (OSError EINVAL), Map.empty) \<and>
   fst (signal sig_signal_example [SIGKILL] ''on_exit'' Map.empty) \<noteq> Inr ''on_exit''"
  by (simp add: signal_def sig_signal_example_def SIGKILL_def NSIG_def)

text \<open>
  C10, amended. For every tuple of signal numbers and every handler such that each
  registration \<open>sig.signal(signum, handler)\<close> returns, the decorator returns its handler
  argument itself.
\<close>

theorem signal_returns_handler:
  assumes "\<forall>signum \<in> set signums. \<forall>s. fst (sig_signal signum handler s) = Inr ()"
  shows "fst (signal sig_signal signums handler s) = Inr handler"
proof -
  have "fst (signal_loop sig_signal signums handler s) = Inr ()"
    using assms by (rule signal_loop_all_registered)
  then show ?thesis
    by (cases "signal_loop sig_signal signums handler s") (simp add: signal_def)
qed

theorem signal_returns_handler_witness:
  "(\<forall>s :: int \<rightharpoonup> string. fst (sig_signal_example SIGINT ''on_exit'' s) = Inr ()) \<and>
   (\<forall>s :: int \<rightharpoonup> string. fst (sig_signal_example SIGTERM ''on_exit'' s) = Inr ()) \<and>
   signal sig_signal_example [SIGINT, SIGTERM] ''on_exit'' Map.empty =
     (Inr ''on_exit'', [SIGINT \<mapsto> ''on_exit'', SIGTERM \<mapsto> ''on_exit''])"
proof -
  have h: "\<forall>signum \<in> set [SIGINT, SIGTERM]. \<forall>s :: int \<rightharpoonup> string.
      fst (sig_signal_example signum ''on_exit'' s) = Inr ()"
    by (simp add: sig_signal_example_def SIGINT_def SIGTERM_def SIGKILL_def SIGSTOP_def NSIG_def)
  have r: "fst (signal sig_signal_example [SIGINT, SIGTERM] ''on_exit'' (Map.empty :: int \<rightharpoonup> string))
             = Inr ''on_exit''"
    using h by (rule signal_returns_handler)
  have "snd (signal sig_signal_example [SIGINT, SIGTERM] ''on_exit'' (Map.empty :: int \<rightharpoonup> string))
          = [SIGINT \<mapsto> ''on_exit'', SIGTERM \<mapsto> ''on_exit'']"
    by (simp add: signal_def sig_signal_example_def SIGINT_def SIGTERM_def SIGKILL_def
        SIGSTOP_def NSIG_def)
  with r h show ?thesis by (simp add: prod_eq_iff)
qed


end
